theory Spec2Isabelle
  imports Main
begin

section \<open>JavaScript values\<close>

text \<open>
  \<^verbatim>\<open>response.json()\<close> yields an untyped value, and the component stores what the
  API functions return without any run-time check, so the model works on JavaScript
  values rather than on the TypeScript interfaces \<^verbatim>\<open>Profile\<close> and \<^verbatim>\<open>BlocklistItem\<close>.
  Numbers are integers here: the code only tests a number for being zero or positive.
  A string is its list of code units. An object is the list of its own properties.
\<close>

datatype jsval =
    JUndefined
  | JNull
  | JBool bool
  | JNum int
  | JStr string
  | JArr "jsval list"
  | JObj "(string \<times> jsval) list"

text \<open>What a \<^verbatim>\<open>throw\<close> or a rejected promise carries.\<close>

datatype js_error = TypeError | SyntaxError | NetworkError

text \<open>ToBoolean: the test of \<^verbatim>\<open>if (v)\<close>, \<^verbatim>\<open>v || w\<close> and \<^verbatim>\<open>v && w\<close>.\<close>

fun truthy :: "jsval \<Rightarrow> bool" where
  "truthy JUndefined = False"
| "truthy JNull = False"
| "truthy (JBool b) = b"
| "truthy (JNum n) = (n \<noteq> 0)"
| "truthy (JStr s) = (s \<noteq> [])"
| "truthy (JArr xs) = True"
| "truthy (JObj kvs) = True"

text \<open>\<^verbatim>\<open>a || b\<close>\<close>

definition js_or :: "jsval \<Rightarrow> jsval \<Rightarrow> jsval" where
  "js_or a b = (if truthy a then a else b)"

text \<open>
  Property read \<^verbatim>\<open>v.k\<close>. Reading a property of \<^verbatim>\<open>undefined\<close> or \<^verbatim>\<open>null\<close> throws
  a TypeError; a missing property reads as \<^verbatim>\<open>undefined\<close>. Of the inherited properties
  only \<^verbatim>\<open>length\<close> of strings and arrays is read by the code.
\<close>

fun get_prop :: "jsval \<Rightarrow> string \<Rightarrow> js_error + jsval" where
  "get_prop JUndefined k = Inl TypeError"
| "get_prop JNull k = Inl TypeError"
| "get_prop (JBool b) k = Inr JUndefined"
| "get_prop (JNum n) k = Inr JUndefined"
| "get_prop (JStr s) k = Inr (if k = ''length'' then JNum (int (length s)) else JUndefined)"
| "get_prop (JArr xs) k = Inr (if k = ''length'' then JNum (int (length xs)) else JUndefined)"
| "get_prop (JObj kvs) k = Inr (case map_of kvs k of None \<Rightarrow> JUndefined | Some v \<Rightarrow> v)"

text \<open>Sequencing of steps that may throw: the first error ends the block.\<close>

definition js_bind :: "js_error + 'a \<Rightarrow> ('a \<Rightarrow> js_error + 'b) \<Rightarrow> js_error + 'b" where
  "js_bind m f = (case m of Inl e \<Rightarrow> Inl e | Inr v \<Rightarrow> f v)"

section \<open>The three remote lookups (\<^verbatim>\<open>API\<close>)\<close>

text \<open>
  How a \<^verbatim>\<open>fetch\<close> followed by \<^verbatim>\<open>response.json()\<close> settles: the fetch rejects
  (network error), or it resolves with a response of some status code whose body either
  parses to a value or does not (\<^verbatim>\<open>response.json()\<close> rejects). \<^verbatim>\<open>fetch\<close> resolves for
  every status code, and none of the three functions reads the status. An exception
  raised while the URL is built (the argument is converted to a string there) is caught
  by the same handler as a rejected fetch, and \<open>Rejected\<close> stands for it too.
\<close>

datatype fetch_result =
    Rejected
  | Response nat "jsval option"

text \<open>\<^verbatim>\<open>const response = await fetch(...); const data = await response.json();\<close>\<close>

fun fetch_json :: "fetch_result \<Rightarrow> js_error + jsval" where
  "fetch_json Rejected = Inl NetworkError"
| "fetch_json (Response status None) = Inl SyntaxError"
| "fetch_json (Response status (Some data)) = Inr data"

text \<open>\<^verbatim>\<open>try { ... } catch (error) { console.error(...); return fallback; }\<close>\<close>

definition try_catch :: "js_error + jsval \<Rightarrow> jsval \<Rightarrow> js_error + jsval" where
  "try_catch body fallback = (case body of Inl e \<Rightarrow> Inr fallback | Inr v \<Rightarrow> Inr v)"

text \<open>
  Each API function is given as a function of how its request settles; the result is
  how the promise it returns settles (\<open>Inl\<close>: rejected, \<open>Inr\<close>: fulfilled).
\<close>

text \<open>\<^verbatim>\<open>return data.did || null;\<close>\<close>

definition getDidFromHandle :: "fetch_result \<Rightarrow> js_error + jsval" where
  "getDidFromHandle r =
     try_catch
       (js_bind (fetch_json r) (\<lambda>data.
        js_bind (get_prop data ''did'') (\<lambda>did.
        Inr (js_or did JNull))))
       JNull"

text \<open>\<^verbatim>\<open>return data;\<close>\<close>

definition getProfileByDid :: "fetch_result \<Rightarrow> js_error + jsval" where
  "getProfileByDid r =
     try_catch
       (js_bind (fetch_json r) (\<lambda>data. Inr data))
       JNull"

text \<open>\<^verbatim>\<open>return data.data.blocklist || [];\<close>\<close>

definition getBlocklist :: "fetch_result \<Rightarrow> js_error + jsval" where
  "getBlocklist r =
     try_catch
       (js_bind (fetch_json r) (\<lambda>data.
        js_bind (get_prop data ''data'') (\<lambda>inner.
        js_bind (get_prop inner ''blocklist'') (\<lambda>bl.
        Inr (js_or bl (JArr []))))))
       (JArr [])"

text \<open>
  The fields the specification speaks of: the identifier field of a response object, and
  the blocklist field nested in its \<^verbatim>\<open>data\<close> object.
\<close>

definition did_field :: "jsval \<Rightarrow> jsval option" where
  "did_field data = (case data of JObj kvs \<Rightarrow> map_of kvs ''did'' | _ \<Rightarrow> None)"

definition blocklist_field :: "jsval \<Rightarrow> jsval option" where
  "blocklist_field data =
     (case data of
        JObj kvs \<Rightarrow>
          (case map_of kvs ''data'' of
             Some (JObj kvs') \<Rightarrow> map_of kvs' ''blocklist''
           | _ \<Rightarrow> None)
      | _ \<Rightarrow> None)"

section \<open>The controller (\<^verbatim>\<open>BlocklistApp\<close>)\<close>

text \<open>
  A call of one of the three API functions, with its argument: the handle for
  \<^verbatim>\<open>getDidFromHandle\<close>, the identifier for \<^verbatim>\<open>getProfileByDid\<close>, the handle for
  \<^verbatim>\<open>getBlocklist\<close>. The argument fixes the URL that is fetched.
\<close>

datatype api_call =
    CallDid string
  | CallProfile jsval
  | CallBlocklist jsval

text \<open>
  An asynchronous function suspended at an \<^verbatim>\<open>await\<close>, with the variables of its
  closure: \<^verbatim>\<open>searchForProfile(query)\<close> waiting for \<^verbatim>\<open>getDidFromHandle\<close> or for
  \<^verbatim>\<open>getProfileByDid\<close>, and \<^verbatim>\<open>handleSelect(profile)\<close> waiting for \<^verbatim>\<open>getBlocklist\<close>.
\<close>

datatype task =
    AwaitDid string
  | AwaitProfile string
  | AwaitBlocklist jsval

text \<open>
  The five \<^verbatim>\<open>useState\<close> cells, the suspended functions, and a log of the calls of
  the API functions made so far (the log is not in the source).
\<close>

record state =
  query :: string
  searchProfile :: jsval
  selectedProfile :: jsval
  blocklist :: jsval
  isSearching :: bool
  pending :: "task list"
  calls :: "api_call list"

definition initial :: state where
  "initial =
     \<lparr>query = [], searchProfile = JNull, selectedProfile = JNull, blocklist = JArr [],
      isSearching = False, pending = [], calls = []\<rparr>"

definition drop_task :: "nat \<Rightarrow> task list \<Rightarrow> task list" where
  "drop_task i ts = take i ts @ drop (Suc i) ts"

subsection \<open>\<^verbatim>\<open>searchForProfile\<close>\<close>

text \<open>From the call to the first \<^verbatim>\<open>await\<close> (or to the early return).\<close>

definition searchForProfile_start :: "string \<Rightarrow> state \<Rightarrow> state" where
  "searchForProfile_start q s =
     (if length q < 3 then s\<lparr>searchProfile := JNull\<rparr>
      else s\<lparr>isSearching := True,
             pending := pending s @ [AwaitDid q],
             calls := calls s @ [CallDid q]\<rparr>)"

text \<open>
  Resumed with the outcome of \<^verbatim>\<open>getDidFromHandle\<close>; \<open>i\<close> is the position of the
  suspended function among the pending ones. A rejection would end the function there.
\<close>

definition searchForProfile_did :: "nat \<Rightarrow> string \<Rightarrow> js_error + jsval \<Rightarrow> state \<Rightarrow> state" where
  "searchForProfile_did i q outcome s =
     (case outcome of
        Inl e \<Rightarrow> s\<lparr>pending := drop_task i (pending s)\<rparr>
      | Inr did \<Rightarrow>
          if truthy did
          then s\<lparr>pending := (pending s)[i := AwaitProfile q],
                 calls := calls s @ [CallProfile did]\<rparr>
          else s\<lparr>searchProfile := JNull, isSearching := False,
                 pending := drop_task i (pending s)\<rparr>)"

text \<open>Resumed with the outcome of \<^verbatim>\<open>getProfileByDid\<close>.\<close>

definition searchForProfile_profile :: "nat \<Rightarrow> js_error + jsval \<Rightarrow> state \<Rightarrow> state" where
  "searchForProfile_profile i outcome s =
     (case outcome of
        Inl e \<Rightarrow> s\<lparr>pending := drop_task i (pending s)\<rparr>
      | Inr profileData \<Rightarrow>
          s\<lparr>searchProfile := profileData, isSearching := False,
            pending := drop_task i (pending s)\<rparr>)"

subsection \<open>\<^verbatim>\<open>handleSelect\<close>\<close>

text \<open>
  From the call to the \<^verbatim>\<open>await\<close>: the selected profile is stored, then
  \<^verbatim>\<open>profile.handle\<close> is read and \<^verbatim>\<open>getBlocklist\<close> is called with it.
\<close>

definition handleSelect_start :: "jsval \<Rightarrow> state \<Rightarrow> state" where
  "handleSelect_start profile s =
     (let s1 = s\<lparr>selectedProfile := profile\<rparr> in
      case get_prop profile ''handle'' of
        Inl e \<Rightarrow> s1
      | Inr h \<Rightarrow>
          s1\<lparr>pending := pending s1 @ [AwaitBlocklist profile],
             calls := calls s1 @ [CallBlocklist h]\<rparr>)"

text \<open>Resumed with the outcome of \<^verbatim>\<open>getBlocklist\<close>.\<close>

definition handleSelect_blocklist :: "nat \<Rightarrow> js_error + jsval \<Rightarrow> state \<Rightarrow> state" where
  "handleSelect_blocklist i outcome s =
     (case outcome of
        Inl e \<Rightarrow> s\<lparr>pending := drop_task i (pending s)\<rparr>
      | Inr blocklistData \<Rightarrow>
          s\<lparr>blocklist := blocklistData, query := [], searchProfile := JNull,
            pending := drop_task i (pending s)\<rparr>)"

subsection \<open>\<^verbatim>\<open>handleClickOutside\<close>\<close>

text \<open>
  The document's \<^verbatim>\<open>mousedown\<close> listener; \<open>inside\<close> tells whether the search region
  (\<^verbatim>\<open>searchRef.current\<close>, set while the component is mounted) contains the target.
\<close>

definition handleClickOutside :: "bool \<Rightarrow> state \<Rightarrow> state" where
  "handleClickOutside inside s = (if \<not> inside then s\<lparr>searchProfile := JNull\<rparr> else s)"

subsection \<open>Events\<close>

text \<open>
  What can happen to the mounted component: a change of the input (\<^verbatim>\<open>setQuery\<close>), the
  debounce timer elapsing (\<^verbatim>\<open>searchForProfile(query)\<close> on the current query), the
  request of a suspended function settling, a click on the row of the dropdown (the row
  exists while \<^verbatim>\<open>searchProfile\<close> is truthy), and a \<^verbatim>\<open>mousedown\<close> on the document. The
  timer itself is not modelled: the debounce may fire at any moment. Requests settle in
  any order.
\<close>

datatype event =
    Type string
  | DebounceFire
  | Settle nat fetch_result
  | ClickRow
  | MouseDown bool

fun step :: "event \<Rightarrow> state \<Rightarrow> state" where
  "step (Type v) s = s\<lparr>query := v\<rparr>"
| "step DebounceFire s = searchForProfile_start (query s) s"
| "step (Settle i r) s =
     (if i < length (pending s)
      then (case pending s ! i of
              AwaitDid q \<Rightarrow> searchForProfile_did i q (getDidFromHandle r) s
            | AwaitProfile q \<Rightarrow> searchForProfile_profile i (getProfileByDid r) s
            | AwaitBlocklist p \<Rightarrow> handleSelect_blocklist i (getBlocklist r) s)
      else s)"
| "step ClickRow s =
     (if truthy (searchProfile s) then handleSelect_start (searchProfile s) s else s)"
| "step (MouseDown inside) s = handleClickOutside inside s"

fun run :: "event list \<Rightarrow> state \<Rightarrow> state" where
  "run [] s = s"
| "run (e # es) s = run es (step e s)"

inductive reachable :: "state \<Rightarrow> bool" where
  reachable_initial: "reachable initial"
| reachable_step: "reachable s \<Longrightarrow> reachable (step e s)"

subsection \<open>Rendering\<close>

text \<open>
  \<^verbatim>\<open>v > 0\<close>. A number is compared as it is, a boolean as 0 or 1, \<^verbatim>\<open>null\<close> as 0 and
  \<^verbatim>\<open>undefined\<close> as NaN. A string or an object is first converted to a number; that
  conversion is the parameter \<open>to_number\<close> (\<open>None\<close> for NaN; the conversion of an object
  may throw).
\<close>

definition js_gt_zero :: "(jsval \<Rightarrow> js_error + int option) \<Rightarrow> jsval \<Rightarrow> js_error + bool" where
  "js_gt_zero to_number v =
     (case v of
        JNum n \<Rightarrow> Inr (0 < n)
      | JBool b \<Rightarrow> Inr b
      | JNull \<Rightarrow> Inr False
      | JUndefined \<Rightarrow> Inr False
      | _ \<Rightarrow> js_bind (to_number v) (\<lambda>x. Inr (case x of None \<Rightarrow> False | Some n \<Rightarrow> 0 < n)))"

text \<open>
  What \<^verbatim>\<open>BlocklistApp\<close> returns: the input, the dropdown holding one \<^verbatim>\<open>SearchResult\<close>
  element for the candidate, and the \<^verbatim>\<open>BlocklistView\<close> element with its two props.
  The components behind these elements run when React renders them. (A falsy operand of
  \<^verbatim>\<open>&&\<close> is itself the child in place of the element; that child is left out here.)
\<close>

record app_view =
  input_value :: string
  dropdown :: "jsval option"
  panel :: "(jsval \<times> jsval) option"

text \<open>\<^verbatim>\<open>selectedProfile && blocklist.length > 0\<close>\<close>

definition panel_guard :: "(jsval \<Rightarrow> js_error + int option) \<Rightarrow> state \<Rightarrow> js_error + bool" where
  "panel_guard to_number s =
     (if truthy (selectedProfile s)
      then js_bind (get_prop (blocklist s) ''length'') (js_gt_zero to_number)
      else Inr False)"

definition BlocklistApp ::
  "(jsval \<Rightarrow> js_error + int option) \<Rightarrow> state \<Rightarrow> js_error + app_view" where
  "BlocklistApp to_number s =
     js_bind (panel_guard to_number s) (\<lambda>shown.
     Inr \<lparr>input_value = query s,
          dropdown = (if truthy (searchProfile s) then Some (searchProfile s) else None),
          panel = (if shown then Some (selectedProfile s, blocklist s) else None)\<rparr>)"

text \<open>
  The content of the card of \<^verbatim>\<open>BlocklistView\<close>: the message when
  \<^verbatim>\<open>blocklist.length === 0\<close>, otherwise one \<^verbatim>\<open>BlocklistItem\<close> element per entry, whose
  key reads \<^verbatim>\<open>block.handle\<close>. Only an array has \<^verbatim>\<open>map\<close>.
\<close>

datatype panel_body =
    EmptyMessage string
  | Items "jsval list"

fun item_elements :: "jsval list \<Rightarrow> js_error + jsval list" where
  "item_elements [] = Inr []"
| "item_elements (block # blocks) =
     js_bind (get_prop block ''handle'') (\<lambda>h.
     js_bind (item_elements blocks) (\<lambda>rest. Inr (block # rest)))"

definition BlocklistView_body :: "jsval \<Rightarrow> js_error + panel_body" where
  "BlocklistView_body bl =
     js_bind (get_prop bl ''length'') (\<lambda>n.
       if n = JNum 0 then Inr (EmptyMessage ''No users have blocked this handle.'')
       else (case bl of
               JArr blocks \<Rightarrow> js_bind (item_elements blocks) (\<lambda>items. Inr (Items items))
             | _ \<Rightarrow> Inl TypeError))"

text \<open>The header reads three properties of the selected profile, then the card follows.\<close>

record panel_view =
  header_avatar :: jsval
  header_handle :: jsval
  header_name :: "jsval option"
  body :: panel_body

definition BlocklistView :: "jsval \<Rightarrow> jsval \<Rightarrow> js_error + panel_view" where
  "BlocklistView sel bl =
     js_bind (get_prop sel ''avatar'') (\<lambda>avatar.
     js_bind (get_prop sel ''handle'') (\<lambda>handle.
     js_bind (get_prop sel ''displayName'') (\<lambda>displayName.
     js_bind (BlocklistView_body bl) (\<lambda>b.
     Inr \<lparr>header_avatar = avatar, header_handle = handle,
          header_name = (if truthy displayName then Some displayName else None),
          body = b\<rparr>))))"

section \<open>Invariant of the pending functions\<close>

text \<open>A suspended \<^verbatim>\<open>searchForProfile\<close> was started for a query of at least 3 characters.\<close>

definition long_query :: "task \<Rightarrow> bool" where
  "long_query t =
     (case t of
        AwaitDid q \<Rightarrow> 3 \<le> length q
      | AwaitProfile q \<Rightarrow> 3 \<le> length q
      | AwaitBlocklist p \<Rightarrow> True)"

section \<open>Example responses and runs\<close>

definition alice_did :: fetch_result where
  "alice_did = Response 200 (Some (JObj [(''did'', JStr ''did:plc:alice'')]))"

definition alice :: jsval where
  "alice = JObj [(''handle'', JStr ''alice''), (''displayName'', JStr ''Alice'')]"

definition alice_profile :: fetch_result where
  "alice_profile = Response 200 (Some alice)"

definition carol_did :: fetch_result where
  "carol_did = Response 200 (Some (JObj [(''did'', JStr ''did:plc:carol'')]))"

definition carol :: jsval where
  "carol = JObj [(''handle'', JStr ''carol'')]"

definition carol_profile :: fetch_result where
  "carol_profile = Response 200 (Some carol)"

definition bob_blocks :: "jsval list" where
  "bob_blocks =
     [JObj [(''handle'', JStr ''bob''), (''blocked_date'', JStr ''2024-01-01''),
            (''status'', JBool True)]]"

definition bob_blocklist :: fetch_result where
  "bob_blocklist = Response 200 (Some (JObj [(''data'', JObj [(''blocklist'', JArr bob_blocks)])]))"

definition empty_blocklist :: fetch_result where
  "empty_blocklist = Response 200 (Some (JObj [(''data'', JObj [(''blocklist'', JArr [])])]))"

definition profile_not_found :: jsval where
  "profile_not_found =
     JObj [(''error'', JStr ''InvalidRequest''), (''message'', JStr ''Profile not found'')]"

text \<open>The query \<^verbatim>\<open>alice\<close> is typed, the debounce fires, both lookups succeed.\<close>

definition search_alice :: "event list" where
  "search_alice = [Type ''alice'', DebounceFire, Settle 0 alice_did, Settle 0 alice_profile]"

text \<open>The same, but the query is cut to \<^verbatim>\<open>al\<close> once the candidate is shown.\<close>

definition shortened_query :: "event list" where
  "shortened_query = search_alice @ [Type ''al'']"

text \<open>
  The query is cut to \<^verbatim>\<open>al\<close> while the lookups for \<^verbatim>\<open>alice\<close> are in flight, the
  debounce fires on \<^verbatim>\<open>al\<close>, and the lookups for \<^verbatim>\<open>alice\<close> settle afterwards.
\<close>

definition stale_search :: "event list" where
  "stale_search =
     [Type ''alice'', DebounceFire, Type ''al'', DebounceFire,
      Settle 0 alice_did, Settle 0 alice_profile]"

text \<open>The candidate \<^verbatim>\<open>alice\<close> is clicked; the request for her blocklist is in flight.\<close>

definition click_alice :: "event list" where
  "click_alice = search_alice @ [ClickRow]"

text \<open>Her blocklist arrives with one entry.\<close>

definition select_alice :: "event list" where
  "select_alice = click_alice @ [Settle 0 bob_blocklist]"

text \<open>Then \<^verbatim>\<open>carol\<close> is searched for and shown as the candidate.\<close>

definition search_carol :: "event list" where
  "search_carol =
     select_alice @ [Type ''carol'', DebounceFire, Settle 0 carol_did, Settle 0 carol_profile]"

text \<open>Two more starting points: a query of two characters, and a lookup of the identifier in flight.\<close>

definition type_al :: "event list" where
  "type_al = [Type ''al'']"

definition type_alice :: "event list" where
  "type_alice = [Type ''alice'']"

definition await_did :: "event list" where
  "await_did = [Type ''alice'', DebounceFire]"

definition await_profile :: "event list" where
  "await_profile = [Type ''alice'', DebounceFire, Settle 0 alice_did]"

text \<open>The query is cut to \<^verbatim>\<open>al\<close> while the profile lookup for \<^verbatim>\<open>alice\<close> is in flight.\<close>

definition await_profile_al :: "event list" where
  "await_profile_al = [Type ''alice'', DebounceFire, Settle 0 alice_did, Type ''al'']"

text \<open>A conversion to a number that always gives NaN, to render the examples with.\<close>

definition no_number :: "jsval \<Rightarrow> js_error + int option" where
  "no_number v = Inr None"

section \<open>Facts about the model\<close>

lemmas segment_defs =
  searchForProfile_start_def searchForProfile_did_def searchForProfile_profile_def
  handleSelect_start_def handleSelect_blocklist_def handleClickOutside_def

lemma getDidFromHandle_fulfils:
  "\<exists>did. getDidFromHandle r = Inr did \<and> (truthy did \<longleftrightarrow> did \<noteq> JNull)"
  by (auto simp: getDidFromHandle_def try_catch_def js_bind_def js_or_def split: sum.splits)

lemma getProfileByDid_fulfils: "\<exists>v. getProfileByDid r = Inr v"
  by (simp add: getProfileByDid_def try_catch_def split: sum.splits)

lemma getBlocklist_fulfils: "\<exists>v. getBlocklist r = Inr v \<and> truthy v"
  by (auto simp: getBlocklist_def try_catch_def js_bind_def js_or_def split: sum.splits)

lemma truthy_get_prop: "truthy v \<Longrightarrow> \<exists>x. get_prop v k = Inr x"
  by (cases v) auto

lemma reachable_run: "reachable s \<Longrightarrow> reachable (run es s)"
  by (induction es arbitrary: s) (auto intro: reachable_step)

lemma reachable_run_initial: "reachable (run es initial)"
  by (rule reachable_run) (rule reachable_initial)

lemma set_drop_task: "set (drop_task i ts) \<subseteq> set ts"
  unfolding drop_task_def by (auto dest: in_set_takeD in_set_dropD)

text \<open>Every step keeps the invariant: a lookup is only started for a query of length 3 or more.\<close>

lemma step_long_query:
  assumes "\<forall>t \<in> set (pending s). long_query t"
  shows "\<forall>t \<in> set (pending (step e s)). long_query t"
proof (cases e)
  case (Type v)
  with assms show ?thesis by simp
next
  case DebounceFire
  with assms show ?thesis
    by (auto simp: searchForProfile_start_def long_query_def)
next
  case (Settle i r)
  show ?thesis
  proof (cases "i < length (pending s)")
    case False
    with Settle assms show ?thesis by simp
  next
    case True
    then have ti: "long_query (pending s ! i)"
      using assms by simp
    have d: "\<forall>t \<in> set (drop_task i (pending s)). long_query t"
      using assms set_drop_task by blast
    have u: "\<And>x. long_query x \<Longrightarrow> \<forall>t \<in> set ((pending s)[i := x]). long_query t"
      using assms set_update_subset_insert[of "pending s" i] by blast
    show ?thesis
    proof (cases "pending s ! i")
      case (AwaitDid q)
      then have "long_query (AwaitProfile q)"
        using ti by (simp add: long_query_def)
      with AwaitDid Settle True d u show ?thesis
        by (auto simp: searchForProfile_did_def split: sum.splits)
    next
      case (AwaitProfile q)
      with Settle True d show ?thesis
        by (auto simp: searchForProfile_profile_def split: sum.splits)
    next
      case (AwaitBlocklist p)
      with Settle True d show ?thesis
        by (auto simp: handleSelect_blocklist_def split: sum.splits)
    qed
  qed
next
  case ClickRow
  with assms show ?thesis
    by (auto simp: handleSelect_start_def Let_def long_query_def split: sum.splits)
next
  case (MouseDown inside)
  with assms show ?thesis
    by (auto simp: handleClickOutside_def)
qed

lemma reachable_long_query: "reachable s \<Longrightarrow> \<forall>t \<in> set (pending s). long_query t"
proof (induction rule: reachable.induct)
  case reachable_initial
  show ?case by (simp add: initial_def)
next
  case (reachable_step s e)
  then show ?case using step_long_query by blast
qed

text \<open>The selected profile is \<^verbatim>\<open>null\<close> or truthy: only a shown candidate can be clicked.\<close>

lemma reachable_selected:
  "reachable s \<Longrightarrow> selectedProfile s = JNull \<or> truthy (selectedProfile s)"
proof (induction rule: reachable.induct)
  case reachable_initial
  show ?case by (simp add: initial_def)
next
  case (reachable_step s e)
  then show ?case
    by (cases e) (auto simp: segment_defs Let_def split: sum.splits task.splits)
qed

section \<open>The resolution client\<close>

text \<open>
  C3, as the code has it: \<^verbatim>\<open>getProfileByDid\<close> always fulfils. It returns \<^verbatim>\<open>null\<close> when the
  fetch rejects and when the body is not JSON; for every other response, whatever the status
  code and whatever the shape of the body, it returns the parsed body.
\<close>

theorem getProfileByDid_result:
  "(\<exists>v. getProfileByDid r = Inr v) \<and>
   getProfileByDid Rejected = Inr JNull \<and>
   getProfileByDid (Response status None) = Inr JNull \<and>
   getProfileByDid (Response status (Some data)) = Inr data"
  by (simp add: getProfileByDid_fulfils) (simp add: getProfileByDid_def try_catch_def js_bind_def)

text \<open>
  C3 as stated fails for a status outside 2xx: the error body of a 404 is returned as
  the profile.
\<close>

theorem getProfileByDid_not_found:
  "getProfileByDid (Response 404 (Some profile_not_found)) = Inr profile_not_found \<and>
   profile_not_found \<noteq> JNull"
  by (simp add: getProfileByDid_def try_catch_def js_bind_def profile_not_found_def)

text \<open>
  C8, as the code has it: \<^verbatim>\<open>getDidFromHandle\<close> always fulfils. It returns \<^verbatim>\<open>null\<close> when the
  fetch rejects, when the body is not JSON, when the response has no \<^verbatim>\<open>did\<close> field, and when
  that field holds a falsy value (such as the empty string); otherwise it returns the
  value of the field.
\<close>

theorem getDidFromHandle_result:
  "(\<exists>v. getDidFromHandle r = Inr v) \<and>
   getDidFromHandle Rejected = Inr JNull \<and>
   getDidFromHandle (Response status None) = Inr JNull \<and>
   (did_field data = None \<longrightarrow> getDidFromHandle (Response status (Some data)) = Inr JNull) \<and>
   (did_field data = Some v \<and> \<not> truthy v \<longrightarrow>
      getDidFromHandle (Response status (Some data)) = Inr JNull) \<and>
   (did_field data = Some v \<and> truthy v \<longrightarrow>
      getDidFromHandle (Response status (Some data)) = Inr v)"
proof -
  have a: "\<exists>v. getDidFromHandle r = Inr v"
    using getDidFromHandle_fulfils by blast
  have b: "getDidFromHandle Rejected = Inr JNull"
    "getDidFromHandle (Response status None) = Inr JNull"
    by (simp_all add: getDidFromHandle_def try_catch_def js_bind_def)
  have c: "did_field data = None \<longrightarrow> getDidFromHandle (Response status (Some data)) = Inr JNull"
    by (cases data)
      (auto simp: getDidFromHandle_def try_catch_def js_bind_def js_or_def did_field_def)
  have d: "did_field data = Some v \<longrightarrow>
      getDidFromHandle (Response status (Some data)) = Inr (if truthy v then v else JNull)"
    by (cases data)
      (auto simp: getDidFromHandle_def try_catch_def js_bind_def js_or_def did_field_def)
  from a b c d show ?thesis by simp
qed

theorem getDidFromHandle_result_witness:
  "did_field (JObj [(''error'', JStr ''InvalidRequest'')]) = None \<and>
   getDidFromHandle (Response 400 (Some (JObj [(''error'', JStr ''InvalidRequest'')]))) = Inr JNull \<and>
   did_field (JObj [(''did'', JBool False)]) = Some (JBool False) \<and> \<not> truthy (JBool False) \<and>
   getDidFromHandle (Response 200 (Some (JObj [(''did'', JBool False)]))) = Inr JNull \<and>
   did_field (JObj [(''did'', JStr ''did:plc:alice'')]) = Some (JStr ''did:plc:alice'') \<and>
   truthy (JStr ''did:plc:alice'') \<and>
   getDidFromHandle alice_did = Inr (JStr ''did:plc:alice'')"
proof -
  have h: "did_field (JObj [(''error'', JStr ''InvalidRequest'')]) = None"
    "did_field (JObj [(''did'', JBool False)]) = Some (JBool False)" "\<not> truthy (JBool False)"
    "did_field (JObj [(''did'', JStr ''did:plc:alice'')]) = Some (JStr ''did:plc:alice'')"
    "truthy (JStr ''did:plc:alice'')"
    by (simp_all add: did_field_def)
  from h
    getDidFromHandle_result[where data = "JObj [(''error'', JStr ''InvalidRequest'')]" and status = 400]
    getDidFromHandle_result[where data = "JObj [(''did'', JBool False)]" and v = "JBool False"
      and status = 200]
    getDidFromHandle_result[where data = "JObj [(''did'', JStr ''did:plc:alice'')]"
      and v = "JStr ''did:plc:alice''" and status = 200]
  show ?thesis
    unfolding alice_did_def by blast
qed

text \<open>
  C8 as stated fails when the response has an identifier field that is falsy: for the
  empty string in \<^verbatim>\<open>did\<close> the result is \<^verbatim>\<open>null\<close>, not the field.
\<close>

theorem getDidFromHandle_empty_did:
  "did_field (JObj [(''did'', JStr [])]) = Some (JStr []) \<and>
   getDidFromHandle (Response 200 (Some (JObj [(''did'', JStr [])]))) = Inr JNull \<and>
   JNull \<noteq> JStr []"
  by (simp add: did_field_def getDidFromHandle_def try_catch_def js_bind_def js_or_def)

text \<open>
  C9: \<^verbatim>\<open>getBlocklist\<close> always fulfils (no error reaches the caller). It returns the empty
  array when the fetch rejects, when the body is not JSON and when the response has no
  nested blocklist field; when that field holds an array, it returns that array. (The
  last conjunct adds what \<^verbatim>\<open>||\<close> does with a field of any kind: a truthy value is
  returned as it is, a falsy one gives the empty array.)
\<close>

theorem getBlocklist_result:
  "(\<exists>v. getBlocklist r = Inr v) \<and>
   getBlocklist Rejected = Inr (JArr []) \<and>
   getBlocklist (Response status None) = Inr (JArr []) \<and>
   (blocklist_field data = None \<longrightarrow>
      getBlocklist (Response status (Some data)) = Inr (JArr [])) \<and>
   (blocklist_field data = Some (JArr entries) \<longrightarrow>
      getBlocklist (Response status (Some data)) = Inr (JArr entries)) \<and>
   (blocklist_field data = Some v \<longrightarrow>
      getBlocklist (Response status (Some data)) = Inr (if truthy v then v else JArr []))"
proof -
  have a: "\<exists>v. getBlocklist r = Inr v"
    using getBlocklist_fulfils by blast
  have b: "getBlocklist Rejected = Inr (JArr [])"
    "getBlocklist (Response status None) = Inr (JArr [])"
    by (simp_all add: getBlocklist_def try_catch_def js_bind_def)
  have c: "blocklist_field data = None \<longrightarrow>
      getBlocklist (Response status (Some data)) = Inr (JArr [])"
    by (cases data)
      (auto simp: getBlocklist_def try_catch_def js_bind_def js_or_def blocklist_field_def
        split: option.splits jsval.splits sum.splits)
  have d: "blocklist_field data = Some v \<longrightarrow>
      getBlocklist (Response status (Some data)) = Inr (if truthy v then v else JArr [])" for v
    by (cases data)
      (auto simp: getBlocklist_def try_catch_def js_bind_def js_or_def blocklist_field_def
        split: option.splits jsval.splits sum.splits)
  from d[of "JArr entries"] have e: "blocklist_field data = Some (JArr entries) \<longrightarrow>
      getBlocklist (Response status (Some data)) = Inr (JArr entries)"
    by simp
  from a b c d[of v] e show ?thesis by simp
qed

theorem getBlocklist_result_witness:
  "blocklist_field (JObj [(''error'', JStr ''not found'')]) = None \<and>
   getBlocklist (Response 404 (Some (JObj [(''error'', JStr ''not found'')]))) = Inr (JArr []) \<and>
   blocklist_field (JObj [(''data'', JObj [(''blocklist'', JArr bob_blocks)])])
     = Some (JArr bob_blocks) \<and>
   getBlocklist bob_blocklist = Inr (JArr bob_blocks)"
proof -
  have h: "blocklist_field (JObj [(''error'', JStr ''not found'')]) = None"
    "blocklist_field (JObj [(''data'', JObj [(''blocklist'', JArr bob_blocks)])])
       = Some (JArr bob_blocks)"
    by (simp_all add: blocklist_field_def)
  from h
    getBlocklist_result[where data = "JObj [(''error'', JStr ''not found'')]" and status = 404
      and v = JNull]
    getBlocklist_result[where data = "JObj [(''data'', JObj [(''blocklist'', JArr bob_blocks)])]"
      and entries = bob_blocks and v = "JArr bob_blocks" and status = 200]
  show ?thesis
    unfolding bob_blocklist_def by blast
qed

section \<open>The search controller\<close>

text \<open>
  C1: the resolution sequence. When the debounce fires on a query shorter than 3, the
  candidate is set to \<^verbatim>\<open>null\<close> and nothing else changes (no API function is called).
  Otherwise the busy flag is set and \<^verbatim>\<open>getDidFromHandle\<close> is called. When that lookup settles,
  it yields a value; if the value is not \<^verbatim>\<open>null\<close>, \<^verbatim>\<open>getProfileByDid\<close> is called with it, and
  if it is \<^verbatim>\<open>null\<close> the candidate is set to \<^verbatim>\<open>null\<close> and the busy flag is cleared. When
  the profile lookup settles, its result is stored as the candidate and the busy flag is
  cleared. Each step holds from any state, whatever happened in between.
\<close>

theorem searchForProfile_sequence:
  "(length (query s) < 3 \<longrightarrow>
      step DebounceFire s = s\<lparr>searchProfile := JNull\<rparr> \<and>
      calls (step DebounceFire s) = calls s)
   \<and> (\<not> length (query s) < 3 \<longrightarrow>
      step DebounceFire s =
        s\<lparr>isSearching := True, pending := pending s @ [AwaitDid (query s)],
          calls := calls s @ [CallDid (query s)]\<rparr>)
   \<and> (i < length (pending t) \<and> pending t ! i = AwaitDid q \<longrightarrow>
        (\<exists>did. getDidFromHandle r = Inr did \<and>
           (if did \<noteq> JNull
            then step (Settle i r) t =
                   t\<lparr>pending := (pending t)[i := AwaitProfile q],
                     calls := calls t @ [CallProfile did]\<rparr>
            else step (Settle i r) t =
                   t\<lparr>searchProfile := JNull, isSearching := False,
                     pending := drop_task i (pending t)\<rparr>)))
   \<and> (j < length (pending u) \<and> pending u ! j = AwaitProfile q' \<longrightarrow>
        (\<exists>profileData. getProfileByDid r' = Inr profileData \<and>
           step (Settle j r') u =
             u\<lparr>searchProfile := profileData, isSearching := False,
               pending := drop_task j (pending u)\<rparr>))"
proof -
  obtain did where did: "getDidFromHandle r = Inr did" "truthy did \<longleftrightarrow> did \<noteq> JNull"
    using getDidFromHandle_fulfils by blast
  obtain pd where pd: "getProfileByDid r' = Inr pd"
    using getProfileByDid_fulfils by blast
  have a: "length (query s) < 3 \<longrightarrow>
      step DebounceFire s = s\<lparr>searchProfile := JNull\<rparr> \<and>
      calls (step DebounceFire s) = calls s"
    by (simp add: searchForProfile_start_def)
  have b: "\<not> length (query s) < 3 \<longrightarrow>
      step DebounceFire s =
        s\<lparr>isSearching := True, pending := pending s @ [AwaitDid (query s)],
          calls := calls s @ [CallDid (query s)]\<rparr>"
    by (simp add: searchForProfile_start_def)
  have c: "i < length (pending t) \<and> pending t ! i = AwaitDid q \<longrightarrow>
        (\<exists>did. getDidFromHandle r = Inr did \<and>
           (if did \<noteq> JNull
            then step (Settle i r) t =
                   t\<lparr>pending := (pending t)[i := AwaitProfile q],
                     calls := calls t @ [CallProfile did]\<rparr>
            else step (Settle i r) t =
                   t\<lparr>searchProfile := JNull, isSearching := False,
                     pending := drop_task i (pending t)\<rparr>))"
    using did by (auto simp: searchForProfile_did_def)
  have d: "j < length (pending u) \<and> pending u ! j = AwaitProfile q' \<longrightarrow>
        (\<exists>profileData. getProfileByDid r' = Inr profileData \<and>
           step (Settle j r') u =
             u\<lparr>searchProfile := profileData, isSearching := False,
               pending := drop_task j (pending u)\<rparr>)"
    using pd by (simp add: searchForProfile_profile_def)
  from a b c d show ?thesis by blast
qed

theorem searchForProfile_sequence_witness:
  "length (query (run type_al initial)) < 3 \<and>
   searchProfile (step DebounceFire (run type_al initial)) = JNull \<and>
   calls (step DebounceFire (run type_al initial)) = [] \<and>
   \<not> length (query (run type_alice initial)) < 3 \<and>
   isSearching (step DebounceFire (run type_alice initial)) \<and>
   calls (step DebounceFire (run type_alice initial)) = [CallDid ''alice''] \<and>
   pending (run await_did initial) ! 0 = AwaitDid ''alice'' \<and>
   calls (step (Settle 0 alice_did) (run await_did initial))
     = [CallDid ''alice'', CallProfile (JStr ''did:plc:alice'')] \<and>
   searchProfile (step (Settle 0 Rejected) (run await_did initial)) = JNull \<and>
   \<not> isSearching (step (Settle 0 Rejected) (run await_did initial)) \<and>
   pending (run await_profile initial) ! 0 = AwaitProfile ''alice'' \<and>
   searchProfile (step (Settle 0 alice_profile) (run await_profile initial)) = alice \<and>
   \<not> isSearching (step (Settle 0 alice_profile) (run await_profile initial))"
proof -
  have h: "length (query (run type_al initial)) < 3"
    "\<not> length (query (run type_alice initial)) < 3"
    "0 < length (pending (run await_did initial))"
    "pending (run await_did initial) ! 0 = AwaitDid ''alice''"
    "0 < length (pending (run await_profile initial))"
    "pending (run await_profile initial) ! 0 = AwaitProfile ''alice''"
    by code_simp+
  have v: "calls (run type_al initial) = []"
    "query (run type_alice initial) = ''alice''"
    "calls (run type_alice initial) = []"
    "calls (run await_did initial) = [CallDid ''alice'']"
    "getDidFromHandle alice_did = Inr (JStr ''did:plc:alice'')"
    "getDidFromHandle Rejected = Inr JNull"
    "getProfileByDid alice_profile = Inr alice"
    by code_simp+
  note w1 = searchForProfile_sequence[where s = "run type_al initial"
      and t = "run await_did initial" and i = 0 and q = "''alice''" and r = alice_did
      and u = "run await_profile initial" and j = 0 and q' = "''alice''" and r' = alice_profile]
  note w2 = searchForProfile_sequence[where s = "run type_alice initial"
      and t = "run await_did initial" and i = 0 and q = "''alice''" and r = Rejected
      and u = "run await_profile initial" and j = 0 and q' = "''alice''" and r' = alice_profile]
  from w1 h v have a: "searchProfile (step DebounceFire (run type_al initial)) = JNull"
    "calls (step DebounceFire (run type_al initial)) = []"
    "calls (step (Settle 0 alice_did) (run await_did initial))
       = [CallDid ''alice'', CallProfile (JStr ''did:plc:alice'')]"
    "searchProfile (step (Settle 0 alice_profile) (run await_profile initial)) = alice"
    "\<not> isSearching (step (Settle 0 alice_profile) (run await_profile initial))"
    by auto
  from w2 h v have b: "isSearching (step DebounceFire (run type_alice initial))"
    "calls (step DebounceFire (run type_alice initial)) = [CallDid ''alice'']"
    "searchProfile (step (Settle 0 Rejected) (run await_did initial)) = JNull"
    "\<not> isSearching (step (Settle 0 Rejected) (run await_did initial))"
    by auto
  from h a b show ?thesis by simp
qed

text \<open>
  C2: the selection. A click on the shown candidate stores it as the selected profile
  and calls \<^verbatim>\<open>getBlocklist\<close> exactly once, with the handle of that profile. When that
  call settles, it yields a value, which is stored as the blocklist entries; the query
  text becomes empty and the candidate \<^verbatim>\<open>null\<close>; no further call is made.
\<close>

theorem handleSelect_transition:
  "(truthy (searchProfile s) \<longrightarrow>
      (\<exists>h. get_prop (searchProfile s) ''handle'' = Inr h \<and>
         step ClickRow s =
           s\<lparr>selectedProfile := searchProfile s,
             pending := pending s @ [AwaitBlocklist (searchProfile s)],
             calls := calls s @ [CallBlocklist h]\<rparr>))
   \<and> (i < length (pending t) \<and> pending t ! i = AwaitBlocklist p \<longrightarrow>
        (\<exists>entries. getBlocklist r = Inr entries \<and>
           step (Settle i r) t =
             t\<lparr>blocklist := entries, query := [], searchProfile := JNull,
               pending := drop_task i (pending t)\<rparr>))"
proof -
  obtain bl where bl: "getBlocklist r = Inr bl"
    using getBlocklist_fulfils by blast
  have a: "truthy (searchProfile s) \<longrightarrow>
      (\<exists>h. get_prop (searchProfile s) ''handle'' = Inr h \<and>
         step ClickRow s =
           s\<lparr>selectedProfile := searchProfile s,
             pending := pending s @ [AwaitBlocklist (searchProfile s)],
             calls := calls s @ [CallBlocklist h]\<rparr>)"
  proof
    assume tr: "truthy (searchProfile s)"
    then obtain h where h: "get_prop (searchProfile s) ''handle'' = Inr h"
      using truthy_get_prop by blast
    with tr show "\<exists>h. get_prop (searchProfile s) ''handle'' = Inr h \<and>
         step ClickRow s =
           s\<lparr>selectedProfile := searchProfile s,
             pending := pending s @ [AwaitBlocklist (searchProfile s)],
             calls := calls s @ [CallBlocklist h]\<rparr>"
      by (simp add: handleSelect_start_def Let_def)
  qed
  have b: "i < length (pending t) \<and> pending t ! i = AwaitBlocklist p \<longrightarrow>
        (\<exists>entries. getBlocklist r = Inr entries \<and>
           step (Settle i r) t =
             t\<lparr>blocklist := entries, query := [], searchProfile := JNull,
               pending := drop_task i (pending t)\<rparr>)"
    using bl by (simp add: handleSelect_blocklist_def)
  from a b show ?thesis by blast
qed

theorem handleSelect_transition_witness:
  "truthy (searchProfile (run search_alice initial)) \<and>
   selectedProfile (step ClickRow (run search_alice initial)) = alice \<and>
   calls (step ClickRow (run search_alice initial))
     = calls (run search_alice initial) @ [CallBlocklist (JStr ''alice'')] \<and>
   pending (run click_alice initial) ! 0 = AwaitBlocklist alice \<and>
   blocklist (step (Settle 0 bob_blocklist) (run click_alice initial)) = JArr bob_blocks \<and>
   query (step (Settle 0 bob_blocklist) (run click_alice initial)) = [] \<and>
   searchProfile (step (Settle 0 bob_blocklist) (run click_alice initial)) = JNull \<and>
   calls (step (Settle 0 bob_blocklist) (run click_alice initial)) = calls (run click_alice initial)"
proof -
  have h: "truthy (searchProfile (run search_alice initial))"
    "0 < length (pending (run click_alice initial))"
    "pending (run click_alice initial) ! 0 = AwaitBlocklist alice"
    by code_simp+
  have v: "searchProfile (run search_alice initial) = alice"
    "get_prop alice ''handle'' = Inr (JStr ''alice'')"
    "getBlocklist bob_blocklist = Inr (JArr bob_blocks)"
    by code_simp+
  note w = handleSelect_transition[where s = "run search_alice initial"
      and t = "run click_alice initial" and i = 0 and p = alice and r = bob_blocklist]
  from w h v have a: "selectedProfile (step ClickRow (run search_alice initial)) = alice"
    "calls (step ClickRow (run search_alice initial))
       = calls (run search_alice initial) @ [CallBlocklist (JStr ''alice'')]"
    by auto
  from w h v have b:
    "blocklist (step (Settle 0 bob_blocklist) (run click_alice initial)) = JArr bob_blocks"
    "query (step (Settle 0 bob_blocklist) (run click_alice initial)) = []"
    "searchProfile (step (Settle 0 bob_blocklist) (run click_alice initial)) = JNull"
    "calls (step (Settle 0 bob_blocklist) (run click_alice initial)) = calls (run click_alice initial)"
    by auto
  from h a b show ?thesis by simp
qed

text \<open>
  C7: a \<^verbatim>\<open>mousedown\<close> outside the search region sets the candidate to \<^verbatim>\<open>null\<close> and changes
  nothing else; in particular the selected profile and the blocklist entries stay. This
  holds in every state, so also while a candidate is shown.
\<close>

theorem click_outside_clears_candidate:
  "step (MouseDown False) s = s\<lparr>searchProfile := JNull\<rparr> \<and>
   searchProfile (step (MouseDown False) s) = JNull \<and>
   selectedProfile (step (MouseDown False) s) = selectedProfile s \<and>
   blocklist (step (MouseDown False) s) = blocklist s"
  by (simp add: handleClickOutside_def)

text \<open>
  C4, as the code has it. In a reachable state, a step that gives the candidate a new
  value other than \<^verbatim>\<open>null\<close> is the settling of the profile lookup of a resolution that was
  started for a query of at least 3 characters, and the value is the result of that
  lookup. The candidate is set to \<^verbatim>\<open>null\<close> when the debounce fires on a query shorter
  than 3, on a \<^verbatim>\<open>mousedown\<close> outside the search region, and when the blocklist request
  of a selection settles. Nothing ties the candidate to the current query text.
\<close>

theorem candidate_discipline:
  assumes "reachable s"
  shows "(searchProfile (step e s) \<noteq> JNull \<and> searchProfile (step e s) \<noteq> searchProfile s \<longrightarrow>
            (\<exists>i r q. e = Settle i r \<and> i < length (pending s) \<and>
               pending s ! i = AwaitProfile q \<and> 3 \<le> length q \<and>
               getProfileByDid r = Inr (searchProfile (step e s))))
       \<and> (length (query s) < 3 \<longrightarrow> searchProfile (step DebounceFire s) = JNull)
       \<and> searchProfile (step (MouseDown False) s) = JNull
       \<and> (j < length (pending s) \<and> pending s ! j = AwaitBlocklist p \<longrightarrow>
            searchProfile (step (Settle j r') s) = JNull)"
proof -
  have inv: "\<forall>t \<in> set (pending s). long_query t"
    using assms by (rule reachable_long_query)
  have a: "searchProfile (step e s) \<noteq> JNull \<and> searchProfile (step e s) \<noteq> searchProfile s \<longrightarrow>
            (\<exists>i r q. e = Settle i r \<and> i < length (pending s) \<and>
               pending s ! i = AwaitProfile q \<and> 3 \<le> length q \<and>
               getProfileByDid r = Inr (searchProfile (step e s)))"
  proof (cases e)
    case (Settle i r)
    show ?thesis
    proof (cases "i < length (pending s)")
      case False
      with Settle show ?thesis by simp
    next
      case True
      then have ti: "long_query (pending s ! i)"
        using inv by simp
      show ?thesis
      proof (cases "pending s ! i")
        case (AwaitDid q)
        with Settle True show ?thesis
          by (auto simp: searchForProfile_did_def split: sum.splits)
      next
        case (AwaitProfile q)
        obtain pd where pd: "getProfileByDid r = Inr pd"
          using getProfileByDid_fulfils by blast
        from AwaitProfile ti have "3 \<le> length q"
          by (simp add: long_query_def)
        with AwaitProfile Settle True pd show ?thesis
          by (simp add: searchForProfile_profile_def)
      next
        case (AwaitBlocklist p)
        with Settle True show ?thesis
          by (auto simp: handleSelect_blocklist_def split: sum.splits)
      qed
    qed
  qed (auto simp: segment_defs Let_def split: sum.splits)
  have b: "length (query s) < 3 \<longrightarrow> searchProfile (step DebounceFire s) = JNull"
    by (simp add: searchForProfile_start_def)
  have c: "searchProfile (step (MouseDown False) s) = JNull"
    by (simp add: handleClickOutside_def)
  obtain bl where bl: "getBlocklist r' = Inr bl"
    using getBlocklist_fulfils by blast
  have d: "j < length (pending s) \<and> pending s ! j = AwaitBlocklist p \<longrightarrow>
            searchProfile (step (Settle j r') s) = JNull"
    using bl by (simp add: handleSelect_blocklist_def)
  from a b c d show ?thesis by blast
qed

theorem candidate_discipline_witness:
  "reachable (run await_profile_al initial) \<and>
   searchProfile (run await_profile_al initial) = JNull \<and>
   searchProfile (step (Settle 0 alice_profile) (run await_profile_al initial)) = alice \<and>
   alice \<noteq> JNull \<and>
   (\<exists>q. pending (run await_profile_al initial) ! 0 = AwaitProfile q \<and> 3 \<le> length q) \<and>
   length (query (run await_profile_al initial)) < 3 \<and>
   searchProfile (step DebounceFire (run await_profile_al initial)) = JNull \<and>
   reachable (run click_alice initial) \<and>
   pending (run click_alice initial) ! 0 = AwaitBlocklist alice \<and>
   searchProfile (step (Settle 0 bob_blocklist) (run click_alice initial)) = JNull"
proof -
  have r1: "reachable (run await_profile_al initial)"
    and r2: "reachable (run click_alice initial)"
    by (rule reachable_run_initial)+
  have h: "searchProfile (run await_profile_al initial) = JNull"
    "searchProfile (step (Settle 0 alice_profile) (run await_profile_al initial)) = alice"
    "alice \<noteq> JNull"
    "length (query (run await_profile_al initial)) < 3"
    "0 < length (pending (run click_alice initial))"
    "pending (run click_alice initial) ! 0 = AwaitBlocklist alice"
    by code_simp+
  note w1 = candidate_discipline[OF r1, where e = "Settle 0 alice_profile" and j = 0
      and p = alice and r' = bob_blocklist]
  note w2 = candidate_discipline[OF r2, where j = 0 and p = alice and r' = bob_blocklist]
  from w1 h have a: "\<exists>q. pending (run await_profile_al initial) ! 0 = AwaitProfile q \<and> 3 \<le> length q"
    by (auto simp del: step.simps)
  from w1 h have b: "searchProfile (step DebounceFire (run await_profile_al initial)) = JNull"
    by blast
  from w2 h have c: "searchProfile (step (Settle 0 bob_blocklist) (run click_alice initial)) = JNull"
    by blast
  from r1 r2 h a b c show ?thesis by (simp del: step.simps)
qed

text \<open>
  C4 as stated fails. A profile lookup started for \<^verbatim>\<open>alice\<close> that settles after the query
  was cut to \<^verbatim>\<open>al\<close> (and after the debounce has fired on \<^verbatim>\<open>al\<close>) stores its profile as
  the candidate; and a keystroke that cuts the query to \<^verbatim>\<open>al\<close> leaves a shown candidate
  in place. Both states are reachable, with a query of 2 characters and a candidate.
\<close>

theorem candidate_with_short_query:
  "reachable (run stale_search initial) \<and>
   query (run stale_search initial) = ''al'' \<and>
   searchProfile (run stale_search initial) = alice \<and>
   reachable (run shortened_query initial) \<and>
   query (run shortened_query initial) = ''al'' \<and>
   searchProfile (run shortened_query initial) = alice \<and>
   alice \<noteq> JNull"
proof -
  have r: "reachable (run stale_search initial)" "reachable (run shortened_query initial)"
    by (rule reachable_run_initial)+
  have v: "query (run stale_search initial) = ''al''"
    "searchProfile (run stale_search initial) = alice"
    "query (run shortened_query initial) = ''al''"
    "searchProfile (run shortened_query initial) = alice"
    "alice \<noteq> JNull"
    by code_simp+
  from r v show ?thesis by simp
qed

text \<open>
  C5, as the code has it. The selected profile changes only by a click on the shown
  candidate, a step that leaves the blocklist entries as they are and suspends on the
  blocklist request; the blocklist entries change only when such a request settles, a
  step that leaves the selected profile as it is. No other step changes either of them.
\<close>

theorem selection_writes:
  "(selectedProfile (step e s) \<noteq> selectedProfile s \<longrightarrow>
      e = ClickRow \<and> truthy (searchProfile s) \<and> selectedProfile (step e s) = searchProfile s \<and>
      blocklist (step e s) = blocklist s \<and>
      pending (step e s) = pending s @ [AwaitBlocklist (searchProfile s)])
   \<and> (blocklist (step e s) \<noteq> blocklist s \<longrightarrow>
      selectedProfile (step e s) = selectedProfile s \<and>
      (\<exists>i r p. e = Settle i r \<and> i < length (pending s) \<and> pending s ! i = AwaitBlocklist p \<and>
         getBlocklist r = Inr (blocklist (step e s))))"
proof (cases e)
  case (Settle i r)
  obtain bl where bl: "getBlocklist r = Inr bl"
    using getBlocklist_fulfils by blast
  show ?thesis
  proof (cases "i < length (pending s)")
    case False
    with Settle show ?thesis by simp
  next
    case True
    show ?thesis
    proof (cases "pending s ! i")
      case (AwaitDid q)
      with Settle True show ?thesis
        by (auto simp: searchForProfile_did_def split: sum.splits)
    next
      case (AwaitProfile q)
      with Settle True show ?thesis
        by (auto simp: searchForProfile_profile_def split: sum.splits)
    next
      case (AwaitBlocklist p)
      with Settle True bl show ?thesis
        by (simp add: handleSelect_blocklist_def)
    qed
  qed
next
  case ClickRow
  show ?thesis
  proof (cases "truthy (searchProfile s)")
    case False
    with ClickRow show ?thesis by simp
  next
    case True
    then obtain h where "get_prop (searchProfile s) ''handle'' = Inr h"
      using truthy_get_prop by blast
    with True ClickRow show ?thesis
      by (simp add: handleSelect_start_def Let_def)
  qed
qed (auto simp: segment_defs)

theorem selection_writes_witness:
  "selectedProfile (run search_carol initial) = alice \<and>
   selectedProfile (step ClickRow (run search_carol initial)) = carol \<and>
   carol \<noteq> alice \<and>
   blocklist (step ClickRow (run search_carol initial)) = blocklist (run search_carol initial) \<and>
   blocklist (run click_alice initial) = JArr [] \<and>
   blocklist (step (Settle 0 bob_blocklist) (run click_alice initial)) = JArr bob_blocks \<and>
   JArr bob_blocks \<noteq> JArr [] \<and>
   selectedProfile (step (Settle 0 bob_blocklist) (run click_alice initial))
     = selectedProfile (run click_alice initial)"
proof -
  have h: "selectedProfile (run search_carol initial) = alice"
    "selectedProfile (step ClickRow (run search_carol initial)) = carol"
    "carol \<noteq> alice"
    "blocklist (run click_alice initial) = JArr []"
    "blocklist (step (Settle 0 bob_blocklist) (run click_alice initial)) = JArr bob_blocks"
    "JArr bob_blocks \<noteq> JArr []"
    by code_simp+
  note w1 = selection_writes[where e = ClickRow and s = "run search_carol initial"]
  note w2 = selection_writes[where e = "Settle 0 bob_blocklist" and s = "run click_alice initial"]
  from w1 h have a:
    "blocklist (step ClickRow (run search_carol initial)) = blocklist (run search_carol initial)"
    by (simp del: step.simps)
  from w2 h have b: "selectedProfile (step (Settle 0 bob_blocklist) (run click_alice initial))
     = selectedProfile (run click_alice initial)"
    by (simp del: step.simps)
  from h a b show ?thesis by (simp del: step.simps)
qed

text \<open>
  C5 as stated fails. With \<^verbatim>\<open>alice\<close> selected and her blocklist shown, a click on the
  candidate \<^verbatim>\<open>carol\<close> changes the selected profile and not the blocklist entries: the
  panel is rendered for \<^verbatim>\<open>carol\<close> with the entries fetched for \<^verbatim>\<open>alice\<close>.
\<close>

theorem selected_changes_alone:
  "selectedProfile (run search_carol initial) = alice \<and>
   selectedProfile (step ClickRow (run search_carol initial)) = carol \<and>
   carol \<noteq> alice \<and>
   blocklist (run search_carol initial) = JArr bob_blocks \<and>
   blocklist (step ClickRow (run search_carol initial)) = JArr bob_blocks \<and>
   BlocklistApp no_number (step ClickRow (run search_carol initial))
     = Inr \<lparr>input_value = ''carol'', dropdown = Some carol,
            panel = Some (carol, JArr bob_blocks)\<rparr>"
  by code_simp

text \<open>
  C6: in a reachable state whose blocklist entries are an array, \<^verbatim>\<open>BlocklistApp\<close> renders
  and its output holds the panel if and only if the selected profile is not \<^verbatim>\<open>null\<close> and
  the array is not empty. In particular, once a blocklist request has settled with the
  empty array, no panel is rendered.
\<close>

theorem panel_visibility:
  assumes "reachable s" and "blocklist s = JArr entries"
  shows "(\<exists>v. BlocklistApp to_number s = Inr v \<and>
              (panel v \<noteq> None \<longleftrightarrow> selectedProfile s \<noteq> JNull \<and> entries \<noteq> []))
       \<and> (i < length (pending s) \<and> pending s ! i = AwaitBlocklist p \<and>
            getBlocklist r = Inr (JArr []) \<longrightarrow>
            (\<exists>v. BlocklistApp to_number (step (Settle i r) s) = Inr v \<and> panel v = None))"
proof -
  have sel: "selectedProfile s = JNull \<or> truthy (selectedProfile s)"
    using assms(1) by (rule reachable_selected)
  have a: "\<exists>v. BlocklistApp to_number s = Inr v \<and>
              (panel v \<noteq> None \<longleftrightarrow> selectedProfile s \<noteq> JNull \<and> entries \<noteq> [])"
    using sel assms(2)
    by (auto simp: BlocklistApp_def panel_guard_def js_bind_def js_gt_zero_def)
  have b: "i < length (pending s) \<and> pending s ! i = AwaitBlocklist p \<and>
            getBlocklist r = Inr (JArr []) \<longrightarrow>
            (\<exists>v. BlocklistApp to_number (step (Settle i r) s) = Inr v \<and> panel v = None)"
    by (auto simp: handleSelect_blocklist_def BlocklistApp_def panel_guard_def js_bind_def
        js_gt_zero_def)
  from a b show ?thesis by blast
qed

theorem panel_visibility_witness:
  "reachable (run select_alice initial) \<and>
   blocklist (run select_alice initial) = JArr bob_blocks \<and>
   selectedProfile (run select_alice initial) \<noteq> JNull \<and> bob_blocks \<noteq> [] \<and>
   (\<exists>v. BlocklistApp no_number (run select_alice initial) = Inr v \<and> panel v \<noteq> None) \<and>
   reachable (run click_alice initial) \<and>
   blocklist (run click_alice initial) = JArr [] \<and>
   pending (run click_alice initial) ! 0 = AwaitBlocklist alice \<and>
   getBlocklist empty_blocklist = Inr (JArr []) \<and>
   (\<exists>v. BlocklistApp no_number (step (Settle 0 empty_blocklist) (run click_alice initial)) = Inr v
        \<and> panel v = None)"
proof -
  have r1: "reachable (run select_alice initial)"
    and r2: "reachable (run click_alice initial)"
    by (rule reachable_run_initial)+
  have b1: "blocklist (run select_alice initial) = JArr bob_blocks"
    and b2: "blocklist (run click_alice initial) = JArr []"
    by code_simp+
  have h: "selectedProfile (run select_alice initial) \<noteq> JNull" "bob_blocks \<noteq> []"
    "0 < length (pending (run click_alice initial))"
    "pending (run click_alice initial) ! 0 = AwaitBlocklist alice"
    "getBlocklist empty_blocklist = Inr (JArr [])"
    by code_simp+
  note w1 = panel_visibility[OF r1 b1, where to_number = no_number]
  note w2 = panel_visibility[OF r2 b2, where to_number = no_number and i = 0 and p = alice
      and r = empty_blocklist]
  from w1 h have a:
    "\<exists>v. BlocklistApp no_number (run select_alice initial) = Inr v \<and> panel v \<noteq> None"
    by blast
  from w2 h have b:
    "\<exists>v. BlocklistApp no_number (step (Settle 0 empty_blocklist) (run click_alice initial)) = Inr v
        \<and> panel v = None"
    by blast
  from r1 r2 b1 b2 h a b show ?thesis by (simp del: step.simps)
qed

text \<open>
  C10: whenever the output of \<^verbatim>\<open>BlocklistApp\<close> holds the panel, the panel's props are the
  selected profile and the blocklist entries of the state, an array of entries is not
  empty, and \<^verbatim>\<open>BlocklistView\<close> does not produce the message of the empty list. This holds
  in every state, so in every reachable one.
\<close>

theorem empty_message_unreachable:
  "BlocklistApp to_number s = Inr v \<and> panel v = Some (sel, bl) \<longrightarrow>
     sel = selectedProfile s \<and> bl = blocklist s \<and>
     (\<forall>entries. bl = JArr entries \<longrightarrow> entries \<noteq> []) \<and>
     (\<forall>msg. BlocklistView_body bl \<noteq> Inr (EmptyMessage msg)) \<and>
     (\<forall>p msg. BlocklistView sel bl = Inr p \<longrightarrow> body p \<noteq> EmptyMessage msg)"
proof
  assume h: "BlocklistApp to_number s = Inr v \<and> panel v = Some (sel, bl)"
  then obtain n where n: "get_prop (blocklist s) ''length'' = Inr n"
      "js_gt_zero to_number n = Inr True"
    and eq: "sel = selectedProfile s" "bl = blocklist s"
    by (auto simp: BlocklistApp_def panel_guard_def js_bind_def split: if_splits sum.splits)
  from n(2) have nz: "n \<noteq> JNum 0"
    by (auto simp: js_gt_zero_def)
  have e: "\<forall>entries. bl = JArr entries \<longrightarrow> entries \<noteq> []"
    using n nz eq by auto
  have b: "\<forall>msg. BlocklistView_body bl \<noteq> Inr (EmptyMessage msg)"
    using n nz eq
    by (auto simp: BlocklistView_body_def js_bind_def split: jsval.splits sum.splits)
  have "\<forall>p msg. BlocklistView sel bl = Inr p \<longrightarrow> body p \<noteq> EmptyMessage msg"
    using b by (auto simp: BlocklistView_def js_bind_def split: sum.splits)
  with e b eq show "sel = selectedProfile s \<and> bl = blocklist s \<and>
     (\<forall>entries. bl = JArr entries \<longrightarrow> entries \<noteq> []) \<and>
     (\<forall>msg. BlocklistView_body bl \<noteq> Inr (EmptyMessage msg)) \<and>
     (\<forall>p msg. BlocklistView sel bl = Inr p \<longrightarrow> body p \<noteq> EmptyMessage msg)"
    by blast
qed

theorem empty_message_unreachable_witness:
  "BlocklistApp no_number (run select_alice initial)
     = Inr \<lparr>input_value = [], dropdown = None, panel = Some (alice, JArr bob_blocks)\<rparr> \<and>
   bob_blocks \<noteq> [] \<and>
   BlocklistView_body (JArr bob_blocks) \<noteq> Inr (EmptyMessage ''No users have blocked this handle.'') \<and>
   BlocklistView alice (JArr bob_blocks)
     = Inr \<lparr>header_avatar = JUndefined, header_handle = JStr ''alice'',
            header_name = Some (JStr ''Alice''), body = Items bob_blocks\<rparr> \<and>
   Items bob_blocks \<noteq> EmptyMessage ''No users have blocked this handle.''"
proof -
  have h: "BlocklistApp no_number (run select_alice initial)
     = Inr \<lparr>input_value = [], dropdown = None, panel = Some (alice, JArr bob_blocks)\<rparr>"
    by code_simp
  have v: "BlocklistView alice (JArr bob_blocks)
     = Inr \<lparr>header_avatar = JUndefined, header_handle = JStr ''alice'',
            header_name = Some (JStr ''Alice''), body = Items bob_blocks\<rparr>"
    by code_simp
  note w = empty_message_unreachable[where to_number = no_number
      and s = "run select_alice initial"
      and v = "\<lparr>input_value = [], dropdown = None, panel = Some (alice, JArr bob_blocks)\<rparr>"
      and sel = alice and bl = "JArr bob_blocks"]
  from w h have a: "bob_blocks \<noteq> []"
    "BlocklistView_body (JArr bob_blocks) \<noteq> Inr (EmptyMessage ''No users have blocked this handle.'')"
    by auto
  from w h v have b: "Items bob_blocks \<noteq> EmptyMessage ''No users have blocked this handle.''"
    by auto
  from h v a b show ?thesis by simp
qed

end
